theory Spec2Isabelle
  imports Complex_Main "HOL-Library.Char_ord" "HOL-Library.List_Lexorder"
begin

section \<open>Python values and exceptions\<close>

text \<open>
  The exceptions the modelled handlers can raise. A function that can raise returns
  \<open>py_exception + 'a\<close>, with \<open>Inl\<close> for the exception.
\<close>

datatype py_exception =
  KeyError | TypeError | AttributeError | ZeroDivisionError | UnicodeDecodeError

section \<open>Pagination of an in-memory result list (app/routes/file_categories.py)\<close>

text \<open>
  Python's \<open>xs[start:end]\<close> for integer bounds: a negative bound counts from the end,
  and both bounds are clamped to \<open>[0, len(xs)]\<close>; an empty range gives the empty list.
\<close>

definition py_bound :: "int \<Rightarrow> int \<Rightarrow> nat" where
  "py_bound n i = (if i < 0 then nat (max (i + n) 0) else nat (min i n))"

definition py_slice :: "'a list \<Rightarrow> int \<Rightarrow> int \<Rightarrow> 'a list" where
  "py_slice xs start end =
     (let n = int (length xs); s = py_bound n start; e = py_bound n end
      in take (e - s) (drop s xs))"

record 'a pagination =
  items :: "'a list"
  total :: int
  pages :: int
  has_next :: bool
  has_prev :: bool

text \<open>
  \<open>_paginate_firestore(query_results, page, per_page)\<close>. Python's \<open>//\<close> is floor
  division, as \<open>div\<close> on \<open>int\<close> is, and raises ZeroDivisionError for a zero divisor.
\<close>

definition paginate_firestore :: "'a list \<Rightarrow> int \<Rightarrow> int \<Rightarrow> py_exception + 'a pagination" where
  "paginate_firestore query_results page per_page =
     (let total = int (length query_results);
          start = (page - 1) * per_page;
          end = start + per_page;
          items = py_slice query_results start end
      in if per_page = 0 then Inl ZeroDivisionError
         else Inr \<lparr> items = items, total = total,
                    pages = (total + per_page - 1) div per_page,
                    has_next = (end < total), has_prev = (page > 1) \<rparr>)"

section \<open>Listing file categories (app/routes/file_categories.py)\<close>

subsection \<open>Strings\<close>

text \<open>
  \<open>str_contains s sub\<close> is Python's \<open>sub in s\<close> on two strings. \<open>str.lower()\<close> is a
  library function and is taken as a parameter \<open>str_lower\<close> wherever the code calls it;
  \<open>lower\<close> is what it does on ASCII text, for the examples.
\<close>

definition lower_char :: "char \<Rightarrow> char" where
  "lower_char c =
     (if CHR ''A'' \<le> c \<and> c \<le> CHR ''Z'' then char_of (of_char c + (32::nat)) else c)"

definition lower :: "string \<Rightarrow> string" where
  "lower s = map lower_char s"

fun starts_with :: "string \<Rightarrow> string \<Rightarrow> bool" where
  "starts_with s [] = True"
| "starts_with [] (c # cs) = False"
| "starts_with (x # xs) (c # cs) = (x = c \<and> starts_with xs cs)"

fun str_contains :: "string \<Rightarrow> string \<Rightarrow> bool" where
  "str_contains [] sub = (sub = [])"
| "str_contains (x # xs) sub = (starts_with (x # xs) sub \<or> str_contains xs sub)"

subsection \<open>Category objects\<close>

text \<open>
  The class \<open>FileCategory\<close> (app/models/file_category.py) is not among the sources, so
  a category object is taken as a parameter of any shape: a map from attribute names
  to values. The attribute values are \<open>None\<close>, a string, an integer, a datetime,
  given by the POSIX timestamp that \<open>value.timestamp()\<close> returns, or any other object
  (a class, a bound method, a dict), which has no \<open>lower\<close> method and no ordering and
  is given by its truth value.
\<close>

datatype attr_value = VNone | VStr string | VInt int | VDatetime rat | VObject bool

type_synonym category = "string \<rightharpoonup> attr_value"

text \<open>Python truthiness of an attribute value; a datetime is always true.\<close>

fun truthy :: "attr_value \<Rightarrow> bool" where
  "truthy VNone = False"
| "truthy (VStr s) = (s \<noteq> [])"
| "truthy (VInt n) = (n \<noteq> 0)"
| "truthy (VDatetime t) = True"
| "truthy (VObject b) = b"

text \<open>
  Attributes that every category object has whatever its data: its class, methods of
  \<open>object\<close>, and the methods of \<open>FileCategory\<close> that the handlers call. Each is
  bound to an object that is true.
\<close>

definition object_members :: "string list" where
  "object_members =
     [''__class__'', ''__init__'', ''__repr__'', ''__str__'', ''__eq__'',
      ''to_dict'', ''save'', ''delete'', ''get_user_count'',
      ''get_all'', ''get_by_id'', ''code_exists'']"

text \<open>
  \<open>getattr(cat, name)\<close>, with \<open>None\<close> where \<open>hasattr(cat, name)\<close> is false.
\<close>

definition py_getattr :: "category \<Rightarrow> string \<Rightarrow> attr_value option" where
  "py_getattr cat name =
     (if List.member object_members name then Some (VObject True) else cat name)"

text \<open>\<open>value.lower()\<close>: only a string has the method.\<close>

fun attr_lower :: "(string \<Rightarrow> string) \<Rightarrow> attr_value \<Rightarrow> py_exception + string" where
  "attr_lower str_lower (VStr s) = Inr (str_lower s)"
| "attr_lower str_lower v = Inl AttributeError"

subsection \<open>Sort keys and \<open>list.sort\<close>\<close>

text \<open>
  The values \<open>get_sort_value\<close> returns: a string, a number (an integer attribute, a
  float timestamp, or the literal 0), or an object that has no ordering.
\<close>

datatype sort_key = KStr string | KNum rat | KObj

fun is_datetime :: "attr_value \<Rightarrow> bool" where
  "is_datetime (VDatetime t) = True"
| "is_datetime v = False"

fun timestamp :: "attr_value \<Rightarrow> rat" where
  "timestamp (VDatetime t) = t"
| "timestamp v = 0"

fun key_of_value :: "attr_value \<Rightarrow> sort_key" where
  "key_of_value (VStr s) = KStr s"
| "key_of_value (VInt n) = KNum (of_int n)"
| "key_of_value (VDatetime t) = KNum t"
| "key_of_value VNone = KStr ''''"
| "key_of_value (VObject b) = KObj"

text \<open>
  \<^verbatim>\<open>
  def get_sort_value(cat):
      if hasattr(cat, sort_field):
          value = getattr(cat, sort_field)
          if isinstance(value, datetime):
              return value.timestamp() if value else 0
          return value if value else ''
      return ''
  \<close>
\<close>

definition get_sort_value :: "string \<Rightarrow> category \<Rightarrow> sort_key" where
  "get_sort_value sort_field cat =
     (case py_getattr cat sort_field of
        Some v \<Rightarrow>
          if is_datetime v then (if truthy v then KNum (timestamp v) else KNum 0)
          else (if truthy v then key_of_value v else KStr '''')
      | None \<Rightarrow> KStr '''')"

text \<open>
  Python's \<open>a < b\<close> on two sort keys: strings compare lexicographically, numbers
  numerically, and every other pair raises TypeError.
\<close>

fun key_lt :: "sort_key \<Rightarrow> sort_key \<Rightarrow> py_exception + bool" where
  "key_lt (KStr a) (KStr b) = Inr (a < b)"
| "key_lt (KNum a) (KNum b) = Inr (a < b)"
| "key_lt a b = Inl TypeError"

text \<open>
  \<open>xs.sort(key=key, reverse=reverse)\<close>. Python's sort is a stable comparison sort that
  uses only \<open><\<close> on the keys and lets an exception of a comparison escape; the model is
  the stable insertion sort with these properties. For \<open>reverse=True\<close> Python reverses
  the list, sorts it, and reverses the result, which keeps equal keys in input order.
\<close>

fun insort_py :: "('a \<Rightarrow> sort_key) \<Rightarrow> 'a \<Rightarrow> 'a list \<Rightarrow> py_exception + 'a list" where
  "insort_py key x [] = Inr [x]"
| "insort_py key x (y # ys) =
     (case key_lt (key y) (key x) of
        Inl e \<Rightarrow> Inl e
      | Inr b \<Rightarrow>
          if b then (case insort_py key x ys of Inl e \<Rightarrow> Inl e | Inr zs \<Rightarrow> Inr (y # zs))
          else Inr (x # y # ys))"

fun stable_sort_py :: "('a \<Rightarrow> sort_key) \<Rightarrow> 'a list \<Rightarrow> py_exception + 'a list" where
  "stable_sort_py key [] = Inr []"
| "stable_sort_py key (x # xs) =
     (case stable_sort_py key xs of Inl e \<Rightarrow> Inl e | Inr ys \<Rightarrow> insort_py key x ys)"

definition list_sort :: "('a \<Rightarrow> sort_key) \<Rightarrow> bool \<Rightarrow> 'a list \<Rightarrow> py_exception + 'a list" where
  "list_sort key reverse xs =
     (if reverse
      then (case stable_sort_py key (rev xs) of Inl e \<Rightarrow> Inl e | Inr ys \<Rightarrow> Inr (rev ys))
      else stable_sort_py key xs)"

subsection \<open>The list endpoint\<close>

datatype sort_order = Asc | Desc

text \<open>The validated query parameters (\<open>FileCategoryQuerySchema\<close>).\<close>

record file_category_query =
  q_page :: int
  q_per_page :: int
  q_search :: "string option"
  q_status :: "string option"
  q_sort :: string
  q_order :: sort_order

text \<open>
  The search predicate of the list comprehension, with Python's short-circuit
  \<open>and\<close>/\<open>or\<close>: \<open>cat.code.lower()\<close> is called on whatever \<open>code\<close> holds, while
  \<open>name\<close> and \<open>description\<close> are lowered only when true.
\<close>

definition search_code ::
  "(string \<Rightarrow> string) \<Rightarrow> string \<Rightarrow> category \<Rightarrow> py_exception + bool" where
  "search_code str_lower search_term cat =
     (case py_getattr cat ''code'' of
        None \<Rightarrow> Inr False
      | Some v \<Rightarrow> (case attr_lower str_lower v of Inl e \<Rightarrow> Inl e
                   | Inr s \<Rightarrow> Inr (str_contains s search_term)))"

definition search_optional ::
  "(string \<Rightarrow> string) \<Rightarrow> string \<Rightarrow> string \<Rightarrow> category \<Rightarrow> py_exception + bool" where
  "search_optional str_lower attr search_term cat =
     (case py_getattr cat attr of
        None \<Rightarrow> Inr False
      | Some v \<Rightarrow>
          if truthy v
          then (case attr_lower str_lower v of Inl e \<Rightarrow> Inl e
                | Inr s \<Rightarrow> Inr (str_contains s search_term))
          else Inr False)"

definition search_matches ::
  "(string \<Rightarrow> string) \<Rightarrow> string \<Rightarrow> category \<Rightarrow> py_exception + bool" where
  "search_matches str_lower search_term cat =
     (case search_code str_lower search_term cat of
        Inl e \<Rightarrow> Inl e
      | Inr b \<Rightarrow>
          if b then Inr True
          else (case search_optional str_lower ''name'' search_term cat of
                  Inl e \<Rightarrow> Inl e
                | Inr b' \<Rightarrow>
                    if b' then Inr True
                    else search_optional str_lower ''description'' search_term cat))"

fun filter_py :: "('a \<Rightarrow> py_exception + bool) \<Rightarrow> 'a list \<Rightarrow> py_exception + 'a list" where
  "filter_py p [] = Inr []"
| "filter_py p (x # xs) =
     (case p x of
        Inl e \<Rightarrow> Inl e
      | Inr b \<Rightarrow> (case filter_py p xs of
                    Inl e \<Rightarrow> Inl e
                  | Inr ys \<Rightarrow> Inr (if b then x # ys else ys)))"

definition status_matches :: "string \<Rightarrow> category \<Rightarrow> bool" where
  "status_matches st cat = (py_getattr cat ''status'' = Some (VStr st))"

text \<open>
  The search filter and the status filter of \<open>get_file_categories\<close> (lines 55 to 69),
  on the categories that \<open>FileCategory.get_all()\<close> returned.
\<close>

definition filter_categories ::
  "(string \<Rightarrow> string) \<Rightarrow> category list \<Rightarrow> file_category_query
     \<Rightarrow> py_exception + category list" where
  "filter_categories str_lower all_categories validated_data =
     (case (case q_search validated_data of
              None \<Rightarrow> Inr all_categories
            | Some s \<Rightarrow> if s = [] then Inr all_categories
                        else filter_py (search_matches str_lower (str_lower s)) all_categories) of
        Inl e \<Rightarrow> Inl e
      | Inr searched \<Rightarrow>
          Inr (case q_status validated_data of
                 None \<Rightarrow> searched
               | Some st \<Rightarrow> if st = [] then searched
                            else filter (status_matches st) searched))"

text \<open>
  \<open>get_file_categories\<close>: the filters, the sort (lines 72 to 83, with
  \<open>reverse = validated_data.order == 'desc'\<close>) and the pagination. The items of the
  result are the category objects of the page.
\<close>

definition get_file_categories ::
  "(string \<Rightarrow> string) \<Rightarrow> category list \<Rightarrow> file_category_query
     \<Rightarrow> py_exception + category pagination" where
  "get_file_categories str_lower all_categories validated_data =
     (case filter_categories str_lower all_categories validated_data of
        Inl e \<Rightarrow> Inl e
      | Inr filtered_categories \<Rightarrow>
          (let sort_field = q_sort validated_data;
               reverse = (q_order validated_data = Desc)
           in case list_sort (get_sort_value sort_field) reverse filtered_categories of
                Inl e \<Rightarrow> Inl e
              | Inr sorted_categories \<Rightarrow>
                  paginate_firestore sorted_categories
                    (q_page validated_data) (q_per_page validated_data)))"

subsection \<open>Auxiliary notions for the sort\<close>

fun is_str :: "sort_key \<Rightarrow> bool" where
  "is_str (KStr s) = True"
| "is_str k = False"

fun is_number :: "sort_key \<Rightarrow> bool" where
  "is_number (KNum n) = True"
| "is_number k = False"



text \<open>
  The keys of a list can be sorted: there is at most one, so that none is compared, or
  they are all strings, or all numbers.
\<close>

definition comparable_keys :: "sort_key list \<Rightarrow> bool" where
  "comparable_keys ks = (length ks \<le> 1 \<or> list_all is_str ks \<or> list_all is_number ks)"


section \<open>Example inputs\<close>

text \<open>Three categories, two of them with the same code, one without a creation date.\<close>

definition cat_b1 :: category where
  "cat_b1 = [''code'' \<mapsto> VStr ''B'', ''name'' \<mapsto> VStr ''first'',
             ''created_date'' \<mapsto> VDatetime 1700000000]"

definition cat_a :: category where
  "cat_a = [''code'' \<mapsto> VStr ''A'', ''name'' \<mapsto> VStr ''second'',
            ''created_date'' \<mapsto> VNone]"

definition cat_b2 :: category where
  "cat_b2 = [''code'' \<mapsto> VStr ''B'', ''name'' \<mapsto> VStr ''third'',
             ''created_date'' \<mapsto> VDatetime 1600000000]"

text \<open>A valid query: the first page of 20, newest first.\<close>

definition query_newest_first :: file_category_query where
  "query_newest_first =
     \<lparr> q_page = 1, q_per_page = 20, q_search = None, q_status = None,
       q_sort = ''created_date'', q_order = Desc \<rparr>"



section \<open>Parsed JSON and the Python operations on it\<close>

text \<open>
  The value \<open>json.load\<close> returns for firestore.indexes.json, and every value nested in
  it: \<open>None\<close>, a bool, a number (integers only are modelled), a string, a list, or a
  dict, given as an association list with distinct keys in insertion order.
\<close>

datatype json =
    JNull
  | JBool bool
  | JInt int
  | JStr string
  | JList "json list"
  | JDict "(string \<times> json) list"

definition py_bind :: "py_exception + 'a \<Rightarrow> ('a \<Rightarrow> py_exception + 'b) \<Rightarrow> py_exception + 'b" where
  "py_bind m f = (case m of Inl e \<Rightarrow> Inl e | Inr x \<Rightarrow> f x)"

text \<open>Truthiness: \<open>None\<close>, \<open>False\<close>, 0 and the empty string, list and dict are false.\<close>

fun json_truthy :: "json \<Rightarrow> bool" where
  "json_truthy JNull = False"
| "json_truthy (JBool b) = b"
| "json_truthy (JInt n) = (n \<noteq> 0)"
| "json_truthy (JStr s) = (s \<noteq> [])"
| "json_truthy (JList xs) = (xs \<noteq> [])"
| "json_truthy (JDict d) = (d \<noteq> [])"

text \<open>\<open>x.get(k, default)\<close>: only a dict has the method.\<close>

fun py_get :: "json \<Rightarrow> string \<Rightarrow> json \<Rightarrow> py_exception + json" where
  "py_get (JDict d) k dflt = Inr (case map_of d k of None \<Rightarrow> dflt | Some v \<Rightarrow> v)"
| "py_get x k dflt = Inl AttributeError"

text \<open>
  \<open>k in x\<close> for a string \<open>k\<close>: a key of a dict, a substring of a string, an element of
  a list; \<open>None\<close>, bools and numbers are not containers.
\<close>

fun py_contains :: "string \<Rightarrow> json \<Rightarrow> py_exception + bool" where
  "py_contains k (JDict d) = Inr (map_of d k \<noteq> None)"
| "py_contains k (JStr s) = Inr (str_contains s k)"
| "py_contains k (JList xs) = Inr (List.member xs (JStr k))"
| "py_contains k x = Inl TypeError"

text \<open>
  \<open>x[k]\<close> for a string \<open>k\<close>: the value of a dict (KeyError when absent); a string or
  a list takes integer indices only, and the other values cannot be subscripted.
\<close>

fun py_getitem :: "json \<Rightarrow> string \<Rightarrow> py_exception + json" where
  "py_getitem (JDict d) k = (case map_of d k of None \<Rightarrow> Inl KeyError | Some v \<Rightarrow> Inr v)"
| "py_getitem x k = Inl TypeError"

text \<open>
  The elements a \<open>for\<close> loop sees: those of a list, the keys of a dict, the characters
  of a string; the other values are not iterable.
\<close>

fun py_iter :: "json \<Rightarrow> py_exception + json list" where
  "py_iter (JList xs) = Inr xs"
| "py_iter (JDict d) = Inr (map (\<lambda>kv. JStr (fst kv)) d)"
| "py_iter (JStr s) = Inr (map (\<lambda>c. JStr [c]) s)"
| "py_iter x = Inl TypeError"

text \<open>The decimal digits of a natural number, as an f-string prints an index.\<close>

definition digit_char :: "nat \<Rightarrow> char" where
  "digit_char d = char_of (48 + d)"

function show_nat :: "nat \<Rightarrow> string" where
  "show_nat n = (if n < 10 then [digit_char n] else show_nat (n div 10) @ [digit_char (n mod 10)])"
  by pat_completeness auto
termination
  by (relation "measure id") auto

declare show_nat.simps [simp del]

section \<open>Validating the index configuration (app/routes/firestore_indexes.py)\<close>

text \<open>The messages of \<open>validate_indexes\<close>, for index \<open>idx\<close> and field \<open>field_idx\<close>.\<close>

definition index_prefix :: "nat \<Rightarrow> string" where
  "index_prefix idx = ''Index '' @ show_nat idx"

definition field_prefix :: "nat \<Rightarrow> nat \<Rightarrow> string" where
  "field_prefix idx field_idx = ''Index '' @ show_nat idx @ '', field '' @ show_nat field_idx"

definition msg_missing_collection :: "nat \<Rightarrow> string" where
  "msg_missing_collection idx = index_prefix idx @ '': missing 'collectionGroup' field''"

definition msg_missing_fields :: "nat \<Rightarrow> string" where
  "msg_missing_fields idx = index_prefix idx @ '': missing or empty 'fields' array''"

definition msg_missing_path :: "nat \<Rightarrow> nat \<Rightarrow> string" where
  "msg_missing_path idx field_idx = field_prefix idx field_idx @ '': missing 'fieldPath'' @ [CHR 0x27]"

definition msg_neither :: "nat \<Rightarrow> nat \<Rightarrow> string" where
  "msg_neither idx field_idx =
     field_prefix idx field_idx @ '': must have either 'order' or 'arrayConfig'' @ [CHR 0x27]"

definition msg_both :: "nat \<Rightarrow> nat \<Rightarrow> string" where
  "msg_both idx field_idx =
     field_prefix idx field_idx
       @ '': has both 'order' and 'arrayConfig', 'arrayConfig' will be used''"

definition msg_bad_order :: "nat \<Rightarrow> nat \<Rightarrow> string" where
  "msg_bad_order idx field_idx =
     field_prefix idx field_idx @ '': 'order' must be 'ASCENDING' or 'DESCENDING'' @ [CHR 0x27]"

definition msg_bad_array_config :: "nat \<Rightarrow> nat \<Rightarrow> string" where
  "msg_bad_array_config idx field_idx =
     field_prefix idx field_idx @ '': 'arrayConfig' must be 'CONTAINS'' @ [CHR 0x27]"

text \<open>
  The two lists the validator appends to: \<open>validation_errors\<close> and
  \<open>validation_warnings\<close>.
\<close>

type_synonym findings = "string list \<times> string list"

definition add_error :: "bool \<Rightarrow> string \<Rightarrow> findings \<Rightarrow> findings" where
  "add_error cond msg acc = (if cond then (fst acc @ [msg], snd acc) else acc)"

definition add_warning :: "bool \<Rightarrow> string \<Rightarrow> findings \<Rightarrow> findings" where
  "add_warning cond msg acc = (if cond then (fst acc, snd acc @ [msg]) else acc)"

text \<open>
  The body of the loop over the fields of one index (lines 330 to 357). The two
  lookups \<open>field_config['order']\<close> and \<open>field_config['arrayConfig']\<close> are made only
  when the key was found, as \<open>and\<close> short-circuits.
\<close>

definition validate_field :: "nat \<Rightarrow> nat \<Rightarrow> json \<Rightarrow> findings \<Rightarrow> py_exception + findings" where
  "validate_field idx field_idx field_config acc =
     py_bind (py_contains ''fieldPath'' field_config) (\<lambda>has_path.
     py_bind (py_contains ''order'' field_config) (\<lambda>has_order.
     py_bind (py_contains ''arrayConfig'' field_config) (\<lambda>has_array_config.
     py_bind (if has_order
              then py_bind (py_getitem field_config ''order'')
                     (\<lambda>v. Inr (v \<noteq> JStr ''ASCENDING'' \<and> v \<noteq> JStr ''DESCENDING''))
              else Inr False) (\<lambda>bad_order.
     py_bind (if has_array_config
              then py_bind (py_getitem field_config ''arrayConfig'')
                     (\<lambda>v. Inr (v \<noteq> JStr ''CONTAINS''))
              else Inr False) (\<lambda>bad_array_config.
     Inr (add_error bad_array_config (msg_bad_array_config idx field_idx)
         (add_error bad_order (msg_bad_order idx field_idx)
         (add_warning (has_order \<and> has_array_config) (msg_both idx field_idx)
         (add_error (\<not> has_order \<and> \<not> has_array_config) (msg_neither idx field_idx)
         (add_error (\<not> has_path) (msg_missing_path idx field_idx) acc))))))))))"

fun validate_fields :: "nat \<Rightarrow> nat \<Rightarrow> json list \<Rightarrow> findings \<Rightarrow> py_exception + findings" where
  "validate_fields idx field_idx [] acc = Inr acc"
| "validate_fields idx field_idx (field_config # rest) acc =
     py_bind (validate_field idx field_idx field_config acc)
       (validate_fields idx (Suc field_idx) rest)"

text \<open>The body of the loop over the indexes (lines 320 to 357).\<close>

definition validate_index :: "nat \<Rightarrow> json \<Rightarrow> findings \<Rightarrow> py_exception + findings" where
  "validate_index idx index_config acc =
     py_bind (py_contains ''collectionGroup'' index_config) (\<lambda>has_collection.
     py_bind (py_contains ''fields'' index_config) (\<lambda>has_fields.
     py_bind (if has_fields
              then py_bind (py_getitem index_config ''fields'') (\<lambda>v. Inr (\<not> json_truthy v))
              else Inr True) (\<lambda>no_fields.
     let acc1 = add_error no_fields (msg_missing_fields idx)
                  (add_error (\<not> has_collection) (msg_missing_collection idx) acc)
     in if has_fields
        then py_bind (py_getitem index_config ''fields'') (\<lambda>fields.
             py_bind (py_iter fields) (\<lambda>field_configs.
             validate_fields idx 0 field_configs acc1))
        else Inr acc1)))"

fun validate_loop :: "nat \<Rightarrow> json list \<Rightarrow> findings \<Rightarrow> py_exception + findings" where
  "validate_loop idx [] acc = Inr acc"
| "validate_loop idx (index_config # rest) acc =
     py_bind (validate_index idx index_config acc) (validate_loop (Suc idx) rest)"

text \<open>The JSON body and the HTTP status of the validation response.\<close>

record validation_response =
  v_status :: string
  v_total_indexes :: nat
  v_errors :: "string list"
  v_warnings :: "string list"
  v_message :: string
  v_http_status :: nat

text \<open>
  \<open>validate_indexes\<close>, from the configuration that \<open>load_indexes_file()\<close> returned.
  Everything runs inside \<open>try\<close>; \<open>Inl e\<close> is the \<open>except Exception\<close> branch, which
  answers with HTTP status 500.
\<close>

definition validate_indexes :: "json \<Rightarrow> py_exception + validation_response" where
  "validate_indexes indexes_config =
     py_bind (py_get indexes_config ''indexes'' (JList [])) (\<lambda>indexes.
     py_bind (py_iter indexes) (\<lambda>index_configs.
     py_bind (validate_loop 0 index_configs ([], [])) (\<lambda>acc.
     let validation_errors = fst acc;
         validation_warnings = snd acc;
         is_valid = (length validation_errors = 0)
     in Inr \<lparr> v_status = (if is_valid then ''valid'' else ''invalid''),
              v_total_indexes = length index_configs,
              v_errors = validation_errors,
              v_warnings = validation_warnings,
              v_message = (if is_valid then ''Configuration is valid''
                           else ''Found '' @ show_nat (length validation_errors) @ '' error(s)''),
              v_http_status = (if is_valid then 200 else 400) \<rparr>)))"

text \<open>
  The index file has the shape the configuration format declares: a dict whose
  \<open>indexes\<close>, when present, is a list of dicts, each with \<open>fields\<close>, when present, a
  list of dicts.
\<close>

fun is_dict :: "json \<Rightarrow> bool" where
  "is_dict (JDict d) = True"
| "is_dict v = False"



text \<open>The definition at position \<open>i\<close> of the file, and its field at position \<open>j\<close>.\<close>

definition index_at :: "json \<Rightarrow> nat \<Rightarrow> json option" where
  "index_at cfg i =
     (case cfg of
        JDict c \<Rightarrow>
          (case map_of c ''indexes'' of
             Some (JList idxs) \<Rightarrow> if i < length idxs then Some (idxs ! i) else None
           | _ \<Rightarrow> None)
      | _ \<Rightarrow> None)"



text \<open>The last two characters of a message.\<close>

definition ending :: "string \<Rightarrow> string" where
  "ending m = rev (take 2 (rev m))"

text \<open>
  \<open>grows acc acc'\<close>: the lists \<open>acc'\<close> hold everything the lists \<open>acc\<close> hold, and every
  new error is a text that does not end like the warning (in "ed").
\<close>

definition grows :: "findings \<Rightarrow> findings \<Rightarrow> bool" where
  "grows acc acc' =
     (set (fst acc) \<subseteq> set (fst acc') \<and> set (snd acc) \<subseteq> set (snd acc')
      \<and> (\<forall>m \<in> set (fst acc'). m \<in> set (fst acc) \<or> ending m \<noteq> ''ed''))"

section \<open>Creating the indexes (app/routes/firestore_indexes.py)\<close>

subsection \<open>The remote API and the library functions\<close>

datatype status = Initiated | Exists | Skipped | Error

text \<open>One entry of \<open>results\<close>: the keys \<open>index\<close>, \<open>status\<close> and \<open>detail\<close>.\<close>

record outcome =
  o_index :: json
  o_status :: status
  o_detail :: json

text \<open>
  What the handler reads of a \<open>googleapiclient.errors.HttpError\<close>: \<open>e.resp.status\<close>,
  the bytes \<open>e.content\<close>, which the error always has, and \<open>str(e)\<close>.
\<close>

record http_error =
  resp_status :: int
  content :: string
  err_str :: string

text \<open>
  The result of building and executing one \<open>indexes().create\<close> request: the operation
  (a dict) that \<open>execute()\<close> returns, an \<open>HttpError\<close>, or any other exception, given
  by its \<open>str(e)\<close>.
\<close>

datatype api_result =
    Operation "(string \<times> json) list"
  | RaisesHttpError http_error
  | RaisesOther string

text \<open>
  The functions the handler calls and that are not part of the repository, taken as
  parameters: \<open>str\<close> on a parsed JSON value that is not a string, \<open>str.lower\<close>,
  \<open>bytes.decode('utf-8')\<close> (\<open>None\<close> for UnicodeDecodeError), \<open>json.loads\<close>
  (\<open>None\<close> for JSONDecodeError), \<open>json.dumps\<close>, and the Firestore Admin client, which
  maps the parent path and the request body to a result and changes the remote
  state \<open>'s\<close>.
\<close>

record 's environment =
  py_str :: "json \<Rightarrow> string"
  py_lower :: "string \<Rightarrow> string"
  utf8_decode :: "string \<Rightarrow> string option"
  json_loads :: "string \<Rightarrow> json option"
  json_dumps :: "json \<Rightarrow> string"
  create_index :: "string \<Rightarrow> json \<Rightarrow> 's \<Rightarrow> api_result \<times> 's"

text \<open>A value inside an f-string.\<close>

definition py_format :: "'s environment \<Rightarrow> json \<Rightarrow> string" where
  "py_format env v = (case v of JStr s \<Rightarrow> s | _ \<Rightarrow> py_str env v)"

subsection \<open>Fields, request body and label\<close>

text \<open>
  \<open>api_field\<close> for one field of the definition (lines 226 to 233): the keys
  \<open>fieldPath\<close>, \<open>order\<close> and \<open>arrayConfig\<close> that the field has, with their values.
\<close>

definition copy_key :: "string \<Rightarrow> json \<Rightarrow> (string \<times> json) list \<Rightarrow> py_exception + (string \<times> json) list" where
  "copy_key k field api_field =
     py_bind (py_contains k field) (\<lambda>present.
     if present then py_bind (py_getitem field k) (\<lambda>v. Inr (api_field @ [(k, v)]))
     else Inr api_field)"

definition map_field :: "json \<Rightarrow> py_exception + (string \<times> json) list" where
  "map_field field =
     py_bind (copy_key ''fieldPath'' field []) (\<lambda>a1.
     py_bind (copy_key ''order'' field a1) (\<lambda>a2.
     copy_key ''arrayConfig'' field a2))"

text \<open>The loop over the fields: an empty \<open>api_field\<close> is not appended.\<close>

fun map_fields :: "json list \<Rightarrow> py_exception + (string \<times> json) list list" where
  "map_fields [] = Inr []"
| "map_fields (field # rest) =
     py_bind (map_field field) (\<lambda>api_field.
     py_bind (map_fields rest) (\<lambda>api_fields.
     Inr (if api_field \<noteq> [] then api_field # api_fields else api_fields)))"

text \<open>\<open>a + b\<close> where one side is known to be a string: the other side must be one too.\<close>

fun py_add_str :: "json \<Rightarrow> string \<Rightarrow> py_exception + string" where
  "py_add_str (JStr a) b = Inr (a @ b)"
| "py_add_str v b = Inl TypeError"

fun py_str_add :: "string \<Rightarrow> json \<Rightarrow> py_exception + string" where
  "py_str_add a (JStr b) = Inr (a @ b)"
| "py_str_add a v = Inl TypeError"

text \<open>
  One element of the list comprehension of line 248:
  \<^verbatim>\<open>f['fieldPath']+' '+f.get('order','ASC') if 'order' in f else f['fieldPath']+' ARRAY_CONTAINS'\<close>
\<close>

definition field_label :: "(string \<times> json) list \<Rightarrow> py_exception + string" where
  "field_label f =
     (if map_of f ''order'' \<noteq> None
      then py_bind (py_getitem (JDict f) ''fieldPath'') (\<lambda>p.
           py_bind (py_add_str p '' '') (\<lambda>s.
           py_bind (py_get (JDict f) ''order'' (JStr ''ASC'')) (\<lambda>ord.
           py_str_add s ord)))
      else py_bind (py_getitem (JDict f) ''fieldPath'') (\<lambda>p.
           py_add_str p '' ARRAY_CONTAINS''))"

fun field_labels :: "(string \<times> json) list list \<Rightarrow> py_exception + string list" where
  "field_labels [] = Inr []"
| "field_labels (f # fs) =
     py_bind (field_label f) (\<lambda>l.
     py_bind (field_labels fs) (\<lambda>ls. Inr (l # ls)))"

fun join_comma :: "string list \<Rightarrow> string" where
  "join_comma [] = []"
| "join_comma [s] = s"
| "join_comma (s # t # ss) = s @ '', '' @ join_comma (t # ss)"

subsection \<open>The handler of \<open>HttpError\<close>\<close>

text \<open>
  \<open>error_detail += text\<close>: a string is extended, a list is extended by the characters
  of the text, and any other value raises TypeError (\<open>None\<close> here).
\<close>

fun py_iadd_str :: "json \<Rightarrow> string \<Rightarrow> json option" where
  "py_iadd_str (JStr s) t = Some (JStr (s @ t))"
| "py_iadd_str (JList xs) t = Some (JList (xs @ map (\<lambda>c. JStr [c]) t))"
| "py_iadd_str v t = None"

text \<open>
  Lines 275 to 283. JSONDecodeError, KeyError and TypeError are caught and keep the
  value \<open>error_detail\<close> has at that point; the AttributeError of \<open>.get\<close> on a value
  that is not a dict is not among them and leaves the handler.
\<close>

definition error_detail :: "'s environment \<Rightarrow> string \<Rightarrow> http_error \<Rightarrow> py_exception + json" where
  "error_detail env error_content e =
     (case json_loads env error_content of
        None \<Rightarrow> Inr (JStr (err_str e))
      | Some payload \<Rightarrow>
          py_bind (py_get payload ''error'' (JDict [])) (\<lambda>error_info.
          py_bind (py_get error_info ''message'' (JStr (err_str e))) (\<lambda>message.
          py_bind (py_contains ''details'' error_info) (\<lambda>has_details.
          if has_details
          then py_bind (py_getitem error_info ''details'') (\<lambda>details.
               Inr (case py_iadd_str message ('' Details: '' @ json_dumps env details) of
                      None \<Rightarrow> message
                    | Some extended \<Rightarrow> extended))
          else Inr message))))"

text \<open>The loop state: \<open>results\<close>, \<open>has_errors\<close> and the state of the remote API.\<close>

type_synonym 's progress = "outcome list \<times> bool \<times> 's"

definition record_outcome :: "outcome \<Rightarrow> bool \<Rightarrow> 's \<Rightarrow> 's progress \<Rightarrow> 's progress" where
  "record_outcome out failed st acc =
     (fst acc @ [out], (if failed then True else fst (snd acc)), st)"

text \<open>
  The \<open>except HttpError\<close> clause (lines 265 to 286). The payload is decoded first
  (line 266); a UnicodeDecodeError leaves the clause like every exception raised in it.
\<close>

definition handle_http_error ::
  "'s environment \<Rightarrow> string \<Rightarrow> http_error \<Rightarrow> 's \<Rightarrow> 's progress \<Rightarrow> py_exception + 's progress" where
  "handle_http_error env index_name_str e st acc =
     (case utf8_decode env (content e) of
        None \<Rightarrow> Inl UnicodeDecodeError
      | Some error_content \<Rightarrow>
          if resp_status e = 409
             \<or> str_contains (py_lower env error_content) ''already exists''
          then Inr (record_outcome
                      \<lparr> o_index = JStr index_name_str, o_status = Exists,
                        o_detail = JStr ''Index already exists.'' \<rparr> False st acc)
          else py_bind (error_detail env error_content e) (\<lambda>detail.
               Inr (record_outcome
                      \<lparr> o_index = JStr index_name_str, o_status = Error,
                        o_detail = detail \<rparr> True st acc)))"

subsection \<open>The loop over the definitions\<close>

text \<open>
  The body of the loop (lines 216 to 291). The label \<open>index_name_str\<close> is built before
  the \<open>try\<close>; the \<open>try\<close> holds the request only.
\<close>

definition create_one ::
  "'s environment \<Rightarrow> string \<Rightarrow> json \<Rightarrow> 's progress \<Rightarrow> py_exception + 's progress" where
  "create_one env parent index_def acc =
     (let st = snd (snd acc) in
      py_bind (py_get index_def ''collectionGroup'' JNull) (\<lambda>collection_id.
      if \<not> json_truthy collection_id
      then Inr (record_outcome
                  \<lparr> o_index = JStr ''Unknown'', o_status = Skipped,
                    o_detail = JStr ''Missing 'collectionGroup' in definition.'' \<rparr> True st acc)
      else
        py_bind (py_get index_def ''fields'' (JList [])) (\<lambda>fields.
        py_bind (py_iter fields) (\<lambda>field_list.
        py_bind (map_fields field_list) (\<lambda>api_fields.
        if api_fields = []
        then Inr (record_outcome
                    \<lparr> o_index = collection_id, o_status = Skipped,
                      o_detail = JStr ''No valid 'fields' defined for index.'' \<rparr> True st acc)
        else
          py_bind (py_get index_def ''queryScope'' (JStr ''COLLECTION'')) (\<lambda>query_scope.
          let index_body = JDict [(''queryScope'', query_scope),
                                  (''fields'', JList (map JDict api_fields))]
          in
          py_bind (field_labels api_fields) (\<lambda>labels.
          let index_name_str =
                py_format env collection_id @ '' ('' @ join_comma labels @ '')''
          in
          case create_index env (parent @ ''/'' @ py_format env collection_id) index_body st of
            (Operation operation, st') \<Rightarrow>
              Inr (record_outcome
                     \<lparr> o_index = JStr index_name_str, o_status = Initiated,
                       o_detail = JStr (''Operation: '' @ py_format env
                                   (case map_of operation ''name'' of
                                      None \<Rightarrow> JNull | Some n \<Rightarrow> n)) \<rparr>
                     False st' acc)
          | (RaisesHttpError e, st') \<Rightarrow> handle_http_error env index_name_str e st' acc
          | (RaisesOther msg, st') \<Rightarrow>
              Inr (record_outcome
                     \<lparr> o_index = JStr index_name_str, o_status = Error,
                       o_detail = JStr (''Unexpected error: '' @ msg) \<rparr> True st' acc))))))))"

fun create_loop ::
  "'s environment \<Rightarrow> string \<Rightarrow> json list \<Rightarrow> 's progress \<Rightarrow> py_exception + 's progress" where
  "create_loop env parent [] acc = Inr acc"
| "create_loop env parent (index_def # rest) acc =
     py_bind (create_one env parent index_def acc) (create_loop env parent rest)"

text \<open>The JSON body and the HTTP status of the response of \<open>create_indexes\<close>.\<close>

record create_response =
  c_status :: string
  c_results :: "outcome list"
  c_http_status :: nat

text \<open>
  \<open>create_indexes\<close> from line 143 on, for the parsed index file and the parent path
  of the project. \<open>Inl e\<close> is an exception that leaves the view function.
\<close>

definition create_indexes ::
  "'s environment \<Rightarrow> string \<Rightarrow> json \<Rightarrow> 's \<Rightarrow> py_exception + create_response" where
  "create_indexes env parent index_config st =
     py_bind (py_get index_config ''indexes'' (JList [])) (\<lambda>indexes_to_create.
     if \<not> json_truthy indexes_to_create
     then Inr \<lparr> c_status = ''Info'', c_results = [], c_http_status = 200 \<rparr>
     else
       py_bind (py_iter indexes_to_create) (\<lambda>index_defs.
       py_bind (create_loop env parent index_defs ([], False, st)) (\<lambda>acc.
       let results = fst acc; has_errors = fst (snd acc)
       in Inr \<lparr> c_status = (if \<not> has_errors then ''Completed''
                              else ''Completed with Errors/Skips''),
                c_results = results,
                c_http_status = (if has_errors then 207 else 200) \<rparr>)))"

text \<open>An outcome that counts as a failure of the batch: status Skipped or Error.\<close>

definition is_failure :: "outcome \<Rightarrow> bool" where
  "is_failure out = (o_status out = Skipped \<or> o_status out = Error)"

text \<open>
  The test of line 269 for an index that exists already, on the status and the decoded
  payload.
\<close>

definition already_exists :: "'s environment \<Rightarrow> http_error \<Rightarrow> string \<Rightarrow> bool" where
  "already_exists env e error_content =
     (resp_status e = 409 \<or> str_contains (py_lower env error_content) ''already exists'')"

section \<open>Example index files and remote APIs\<close>

definition field_asc :: "string \<Rightarrow> json" where
  "field_asc p = JDict [(''fieldPath'', JStr p), (''order'', JStr ''ASCENDING'')]"

definition mk_index :: "string \<Rightarrow> json list \<Rightarrow> json" where
  "mk_index c fs = JDict [(''collectionGroup'', JStr c), (''fields'', JList fs)]"


text \<open>A definition whose \<open>collectionGroup\<close> is the empty string.\<close>

definition cfg_empty_collection :: json where
  "cfg_empty_collection = JDict [(''indexes'', JList [mk_index '''' [field_asc ''age'']])]"

text \<open>Three definitions, the second with a field that has no \<open>fieldPath\<close>.\<close>

definition cfg_no_path :: json where
  "cfg_no_path = JDict [(''indexes'', JList
     [mk_index ''users'' [field_asc ''age''],
      mk_index ''orders'' [JDict [(''order'', JStr ''ASCENDING'')]],
      mk_index ''items'' [field_asc ''name'']])]"

text \<open>Two well-formed definitions.\<close>

definition cfg_two :: json where
  "cfg_two = JDict [(''indexes'', JList
     [mk_index ''users'' [field_asc ''age''],
      mk_index ''items'' [field_asc ''name'']])]"

text \<open>
  Library functions for the examples: \<open>json.loads\<close> is given on the one payload the
  examples use, the JSON text of the empty list; decoding is given on ASCII bytes, which
  decode to themselves, and \<open>str.lower\<close> is \<open>lower\<close>, which it is on ASCII text.
\<close>

definition sample_loads :: "string \<Rightarrow> json option" where
  "sample_loads s = (if s = ''[]'' then Some (JList []) else None)"

definition ascii_decode :: "string \<Rightarrow> string option" where
  "ascii_decode b = (if list_all (\<lambda>c. of_char c < (128::nat)) b then Some b else None)"

text \<open>A remote API that accepts every request; its state counts the requests.\<close>

definition env_accept :: "nat environment" where
  "env_accept = \<lparr> py_str = (\<lambda>v. ''<value>''), py_lower = lower,
       utf8_decode = ascii_decode, json_loads = sample_loads,
                   json_dumps = (\<lambda>v. ''<json>''),
                   create_index = (\<lambda>parent body n.
                     (Operation [(''name'', JStr (parent @ ''/operations/'' @ show_nat n))],
                      Suc n)) \<rparr>"

text \<open>
  A remote API that answers every request with status 500 and the JSON text of the
  empty list as payload.
\<close>

definition env_fail_list :: "nat environment" where
  "env_fail_list = \<lparr> py_str = (\<lambda>v. ''<value>''), py_lower = lower,
       utf8_decode = ascii_decode, json_loads = sample_loads,
                      json_dumps = (\<lambda>v. ''<json>''),
                      create_index = (\<lambda>parent body n.
                        (RaisesHttpError \<lparr> resp_status = 500, content = ''[]'',
                                           err_str = ''<HttpError 500>'' \<rparr>, Suc n)) \<rparr>"

text \<open>
  A remote API whose first request succeeds, whose second is answered with a conflict,
  and whose later requests are answered with status 500 and a payload that is not JSON.
\<close>

definition env_mixed :: "nat environment" where
  "env_mixed = \<lparr> py_str = (\<lambda>v. ''<value>''), py_lower = lower,
       utf8_decode = ascii_decode, json_loads = sample_loads,
                  json_dumps = (\<lambda>v. ''<json>''),
                  create_index = (\<lambda>parent body n.
                    (if n = 0 then Operation [(''name'', JStr ''operations/1'')]
                     else if n = 1
                     then RaisesHttpError \<lparr> resp_status = 409, content = ''conflict'',
                                             err_str = ''<HttpError 409>'' \<rparr>
                     else RaisesHttpError \<lparr> resp_status = 500, content = ''Internal error'',
                                             err_str = ''<HttpError 500>'' \<rparr>,
                     Suc n)) \<rparr>"

section \<open>Properties of the paginator\<close>

lemma py_slice_nonneg:
  assumes "0 \<le> start" and "start \<le> end"
  shows "py_slice xs start end = take (nat (end - start)) (drop (nat start) xs)"
proof -
  let ?n = "int (length xs)"
  have s: "py_bound ?n start = min (nat start) (length xs)"
    using assms unfolding py_bound_def min_def by (auto simp: nat_le_iff)
  have e: "py_bound ?n end = min (nat end) (length xs)"
    using assms unfolding py_bound_def min_def by (auto simp: nat_le_iff)
  show ?thesis
  proof (cases "nat start \<le> length xs")
    case True
    then have "take (min (nat end) (length xs) - nat start) (drop (nat start) xs)
             = take (nat end - nat start) (drop (nat start) xs)"
      by (cases "nat end \<le> length xs") (simp_all add: min_def)
    moreover have "nat end - nat start = nat (end - start)"
      using assms by linarith
    ultimately show ?thesis
      using True by (simp add: py_slice_def Let_def s e min_def)
  next
    case False
    then show ?thesis by (simp add: py_slice_def Let_def s e)
  qed
qed

lemma paginate_start_nonneg:
  assumes "1 \<le> page" and "1 \<le> per_page"
  shows "(0::int) \<le> (page - 1) * per_page"
  by (rule mult_nonneg_nonneg) (use assms in simp_all)

text \<open>
  C4. For page \<ge> 1 and per_page in [1,100] the paginator returns (it does not raise),
  total is the size of the list, and items is the slice of the list from
  start = (page-1)*per_page to start+per_page: at most per_page items, exactly per_page
  when total - start \<ge> per_page, and the empty list when start \<ge> total.
\<close>

theorem paginate_items_slice:
  assumes "1 \<le> page" and "1 \<le> per_page" and "per_page \<le> 100"
  shows "\<exists>r. paginate_firestore xs page per_page = Inr r
           \<and> total r = int (length xs)
           \<and> items r = take (nat per_page) (drop (nat ((page - 1) * per_page)) xs)
           \<and> int (length (items r)) \<le> per_page
           \<and> (total r - (page - 1) * per_page \<ge> per_page
                \<longrightarrow> int (length (items r)) = per_page)
           \<and> ((page - 1) * per_page \<ge> total r \<longrightarrow> items r = [])"
proof -
  define start where "start = (page - 1) * per_page"
  define its where "its = take (nat per_page) (drop (nat start) xs)"
  have s0: "0 \<le> start"
    unfolding start_def using assms(1,2) by (rule paginate_start_nonneg)
  have sl: "py_slice xs start (start + per_page) = its"
    using py_slice_nonneg [of start "start + per_page" xs] s0 assms by (simp add: its_def)
  have len: "int (length its) = min per_page (int (length xs) - min start (int (length xs)))"
    using s0 assms unfolding its_def by (simp add: min_def) linarith
  have r: "paginate_firestore xs page per_page
             = Inr \<lparr> items = its, total = int (length xs),
                       pages = (int (length xs) + per_page - 1) div per_page,
                       has_next = (start + per_page < int (length xs)),
                       has_prev = (page > 1) \<rparr>"
    using assms sl by (simp add: paginate_firestore_def Let_def start_def)
  have le: "int (length its) \<le> per_page"
    using len by simp
  have full: "int (length xs) - start \<ge> per_page \<longrightarrow> int (length its) = per_page"
    using len s0 by (simp add: min_def)
  have emp: "start \<ge> int (length xs) \<longrightarrow> its = []"
    using s0 unfolding its_def by simp
  show ?thesis
    using r le full emp
    by (simp add: start_def [symmetric] its_def [symmetric])
qed

theorem paginate_items_slice_witness:
  "\<exists>r. paginate_firestore [10, 20, 30, 40, 50 :: nat] 2 2 = Inr r
       \<and> total r = 5 \<and> items r = [30, 40] \<and> int (length (items r)) = 2"
  using paginate_items_slice [of 2 2 "[10, 20, 30, 40, 50 :: nat]"]
  by (auto simp: numeral_2_eq_2)

lemma ceil_div_int:
  assumes "1 \<le> (b::int)"
  shows "(a + b - 1) div b = - ((- a) div b)"
proof (cases "a mod b = 0")
  case True
  then obtain q where a: "a = q * b" by (metis mod_eq_0_iff_dvd dvd_def mult.commute)
  have "(q * b + (b - 1)) div b = q + (b - 1) div b"
    using assms by (simp add: div_mult_self3)
  moreover have "(b - 1) div b = 0" using assms by (simp add: div_pos_pos_trivial)
  ultimately have l: "(a + b - 1) div b = q" using a by (simp add: algebra_simps)
  have "a div b = q" using assms a by simp
  moreover have "(- a) div b = - (a div b)" using True assms by (simp add: zdiv_zminus1_eq_if)
  ultimately have "(- a) div b = - q" by simp
  with l show ?thesis by simp
next
  case False
  have "0 \<le> a mod b" and rb: "a mod b < b" using assms by simp_all
  with False have r: "0 < a mod b" "a mod b < b" by simp_all
  have "a + b - 1 = (a div b + 1) * b + (a mod b - 1)"
    by (simp add: algebra_simps)
  then have "(a + b - 1) div b = a div b + 1 + (a mod b - 1) div b"
    using assms by (metis div_mult_self3 add.commute not_one_le_zero)
  moreover have "(a mod b - 1) div b = 0" using r by (simp add: div_pos_pos_trivial)
  ultimately show ?thesis using assms False by (simp add: zdiv_zminus1_eq_if)
qed


lemma pages_zero_iff:
  assumes "1 \<le> (b::int)" and "0 \<le> a"
  shows "((a + b - 1) div b = 0) = (a = 0)"
proof
  assume z: "(a + b - 1) div b = 0"
  show "a = 0"
  proof (rule ccontr)
    assume "a \<noteq> 0"
    then have "b \<le> a + b - 1" using assms by simp
    then have "b div b \<le> (a + b - 1) div b" using assms by (intro zdiv_mono1) simp_all
    then show False using z assms by simp
  qed
next
  assume "a = 0"
  then show "(a + b - 1) div b = 0" using assms by (simp add: div_pos_pos_trivial)
qed

text \<open>
  C7. For per_page in [1,100] (total, the length of the list, is never negative) the
  paginator returns pages = (total + per_page - 1) // per_page, which is
  ceil(total / per_page), and pages = 0 exactly when total = 0.
\<close>

theorem paginate_pages_ceiling:
  assumes "1 \<le> per_page" and "per_page \<le> 100"
  shows "\<exists>r. paginate_firestore xs page per_page = Inr r
           \<and> 0 \<le> total r
           \<and> pages r = (total r + per_page - 1) div per_page
           \<and> pages r = \<lceil>real_of_int (total r) / real_of_int per_page\<rceil>
           \<and> ((pages r = 0) = (total r = 0))"
proof -
  define n where "n = int (length xs)"
  have n0: "0 \<le> n" by (simp add: n_def)
  have c: "(n + per_page - 1) div per_page = \<lceil>real_of_int n / real_of_int per_page\<rceil>"
    using ceil_div_int [OF assms(1), of n] by (simp add: ceiling_divide_eq_div)
  have z: "((n + per_page - 1) div per_page = 0) = (n = 0)"
    using assms(1) n0 by (rule pages_zero_iff)
  show ?thesis
    using assms(1) n0 c z
    by (simp add: paginate_firestore_def Let_def n_def [symmetric])
qed

theorem paginate_pages_ceiling_witness:
  "\<exists>r. paginate_firestore [10, 20, 30, 40, 50 :: nat] 1 2 = Inr r
       \<and> total r = 5 \<and> pages r = 3
       \<and> pages r = \<lceil>real_of_int (total r) / real_of_int 2\<rceil>"
  using paginate_pages_ceiling [of 2 "[10, 20, 30, 40, 50 :: nat]" 1]
  by (simp add: paginate_firestore_def py_slice_def py_bound_def)

text \<open>
  C10. When the requested page lies past the end of the data, that is
  (page-1)*per_page \<ge> total (with per_page \<ge> 1), the paginator returns an empty items
  list and has_next = false, while has_prev is (page > 1), computed from page alone.
\<close>

theorem paginate_past_end:
  assumes "1 \<le> per_page" and "int (length xs) \<le> (page - 1) * per_page"
  shows "\<exists>r. paginate_firestore xs page per_page = Inr r
           \<and> items r = [] \<and> \<not> has_next r \<and> has_prev r = (page > 1)"
proof -
  define start where "start = (page - 1) * per_page"
  have s: "int (length xs) \<le> start" using assms(2) by (simp add: start_def)
  then have s0: "0 \<le> start" by linarith
  have "py_slice xs start (start + per_page) = take (nat per_page) (drop (nat start) xs)"
    using py_slice_nonneg [of start "start + per_page" xs] s0 assms(1) by simp
  moreover have "drop (nat start) xs = []" using s by simp
  ultimately have sl: "py_slice xs start (start + per_page) = []" by simp
  show ?thesis
    using assms(1) s sl
    by (simp add: paginate_firestore_def Let_def start_def [symmetric])
qed

theorem paginate_past_end_witness:
  "\<exists>r. paginate_firestore [10, 20, 30 :: nat] 3 2 = Inr r
       \<and> items r = [] \<and> \<not> has_next r \<and> has_prev r"
  using paginate_past_end [of 2 "[10, 20, 30 :: nat]" 3]
  by simp

section \<open>Properties of the in-memory sort\<close>





lemma insort_py_set:
  "insort_py key x zs = Inr ys \<Longrightarrow> set ys = insert x (set zs) \<and> length ys = Suc (length zs)"
proof (induction zs arbitrary: ys)
  case Nil
  then show ?case by auto
next
  case (Cons z zs)
  show ?case
  proof (cases "key_lt (key z) (key x)")
    case (Inl e)
    then show ?thesis using Cons.prems by simp
  next
    case (Inr b)
    show ?thesis
    proof (cases b)
      case True
      then obtain ws where ws: "insort_py key x zs = Inr ws" and ys: "ys = z # ws"
        using Cons.prems Inr by (auto split: sum.splits)
      show ?thesis using Cons.IH [OF ws] ys by auto
    next
      case False
      then show ?thesis using Cons.prems Inr by auto
    qed
  qed
qed

lemma stable_sort_py_set:
  "stable_sort_py key xs = Inr ys \<Longrightarrow> set ys = set xs \<and> length ys = length xs"
proof (induction xs arbitrary: ys)
  case Nil
  then show ?case by simp
next
  case (Cons x xs)
  then obtain zs where zs: "stable_sort_py key xs = Inr zs" and i: "insort_py key x zs = Inr ys"
    by (auto split: sum.splits)
  have "set ys = insert x (set zs) \<and> length ys = Suc (length zs)"
    using i by (rule insort_py_set)
  then show ?case using Cons.IH [OF zs] by simp
qed

text \<open>The only exception of the sort is the TypeError of a comparison.\<close>

lemma key_lt_error:
  "(key_lt a b = Inl e) = (e = TypeError \<and> \<not> (is_str a \<and> is_str b) \<and> \<not> (is_number a \<and> is_number b))"
  by (cases a; cases b) auto

lemma insort_py_error: "insort_py key x ys = Inl e \<Longrightarrow> e = TypeError"
proof (induction ys)
  case Nil
  then show ?case by simp
next
  case (Cons y ys)
  show ?case
  proof (cases "key_lt (key y) (key x)")
    case (Inl e')
    then have "e' = TypeError" by (simp add: key_lt_error)
    moreover have "e = e'" using Cons.prems Inl by simp
    ultimately show ?thesis by simp
  next
    case (Inr b)
    then show ?thesis using Cons by (cases b) (auto split: sum.splits)
  qed
qed

lemma stable_sort_py_error: "stable_sort_py key xs = Inl e \<Longrightarrow> e = TypeError"
proof (induction xs)
  case Nil
  then show ?case by simp
next
  case (Cons x xs)
  then show ?case by (auto split: sum.splits dest: insort_py_error)
qed

text \<open>
  A record whose key cannot be compared with the keys of a list that can be sorted
  makes every comparison with them raise.
\<close>

lemma incomparable_with_all:
  assumes "comparable_keys (map key xs)" and "\<not> comparable_keys (map key (x # xs))"
    and "y \<in> set xs"
  shows "key_lt (key y) (key x) = Inl TypeError"
proof (rule ccontr)
  assume "key_lt (key y) (key x) \<noteq> Inl TypeError"
  then have c: "(is_str (key y) \<and> is_str (key x)) \<or> (is_number (key y) \<and> is_number (key x))"
    by (simp add: key_lt_error)
  have one: "length xs \<le> 1 \<Longrightarrow> xs = [y]"
    using assms(3) by (cases xs) auto
  have "list_all is_str (map key (x # xs)) \<or> list_all is_number (map key (x # xs))"
  proof (cases "length xs \<le> 1")
    case True
    then show ?thesis using one c by auto
  next
    case False
    then have "list_all is_str (map key xs) \<or> list_all is_number (map key xs)"
      using assms(1) by (simp add: comparable_keys_def)
    then show ?thesis
    proof
      assume a: "list_all is_str (map key xs)"
      then have "is_str (key y)" using assms(3) by (simp add: list_all_iff)
      then have "is_str (key x)" using c by (cases "key y") auto
      then show ?thesis using a by simp
    next
      assume a: "list_all is_number (map key xs)"
      then have "is_number (key y)" using assms(3) by (simp add: list_all_iff)
      then have "is_number (key x)" using c by (cases "key y") auto
      then show ?thesis using a by simp
    qed
  qed
  then show False using assms(2) by (simp add: comparable_keys_def)
qed

lemma stable_sort_py_mixed:
  assumes "\<not> comparable_keys (map key xs)"
  shows "stable_sort_py key xs = Inl TypeError"
  using assms
proof (induction xs)
  case Nil
  then show ?case by (simp add: comparable_keys_def)
next
  case (Cons x xs)
  show ?case
  proof (cases "comparable_keys (map key xs)")
    case False
    then show ?thesis using Cons.IH by simp
  next
    case True
    have ne: "xs \<noteq> []" using Cons.prems by (auto simp: comparable_keys_def)
    show ?thesis
    proof (cases "stable_sort_py key xs")
      case (Inl e)
      then show ?thesis using stable_sort_py_error [OF Inl] by simp
    next
      case (Inr ys)
      then have s: "set ys = set xs" and l: "length ys = length xs"
        using stable_sort_py_set [OF Inr] by simp_all
      obtain y ys' where ys: "ys = y # ys'" using l ne by (cases ys) auto
      then have "y \<in> set xs" using s by auto
      then have "key_lt (key y) (key x) = Inl TypeError"
        using True Cons.prems by (intro incomparable_with_all) simp_all
      then show ?thesis using Inr ys by simp
    qed
  qed
qed










lemma comparable_keys_rev: "comparable_keys (map key (rev xs)) = comparable_keys (map key xs)"
  by (simp add: comparable_keys_def list_all_iff)


lemma list_sort_not_comparable:
  assumes "\<not> comparable_keys (map key xs)"
  shows "list_sort key reverse xs = Inl TypeError"
proof (cases reverse)
  case False
  then show ?thesis using stable_sort_py_mixed [OF assms] by (simp add: list_sort_def)
next
  case True
  have "\<not> comparable_keys (map key (rev xs))" using assms comparable_keys_rev [of key xs] by simp
  then have "stable_sort_py key (rev xs) = Inl TypeError" by (rule stable_sort_py_mixed)
  then show ?thesis using True by (simp add: list_sort_def)
qed





text \<open>
  C5 (the code departs from the claim). A category whose \<open>created_date\<close> is null gets
  the empty string as sort key, not the epoch 0 that the unreachable \<open>else 0\<close> of
  \<open>get_sort_value\<close> intends, and sorting it together with a category that carries a
  date raises TypeError.
\<close>

theorem sort_null_timestamp_raises:
  "get_sort_value ''created_date'' cat_a = KStr ''''
   \<and> get_sort_value ''created_date'' cat_b1 = KNum 1700000000
   \<and> get_file_categories str_lower [cat_b1, cat_a, cat_b2]
         \<lparr> q_page = 1, q_per_page = 20, q_search = None, q_status = None,
           q_sort = ''created_date'', q_order = Asc \<rparr> = Inl TypeError"
  by (simp add: get_file_categories_def filter_categories_def list_sort_def get_sort_value_def
        py_getattr_def object_members_def cat_b1_def cat_a_def cat_b2_def)

text \<open>
  C2 (the code departs from the claim). For a valid query that sorts by
  \<open>created_date\<close>, over categories of which one has no creation date, the in-memory
  path raises TypeError in its sort: it yields no result page, so no page of a store
  that sorts on the server can be identical to it.
\<close>

theorem scan_path_yields_no_page:
  "1 \<le> q_page query_newest_first
   \<and> 1 \<le> q_per_page query_newest_first \<and> q_per_page query_newest_first \<le> 100
   \<and> get_file_categories str_lower [cat_b1, cat_a, cat_b2] query_newest_first = Inl TypeError
   \<and> (\<forall>capable_page.
         get_file_categories str_lower [cat_b1, cat_a, cat_b2] query_newest_first
           \<noteq> Inr capable_page)"
  by (simp add: get_file_categories_def filter_categories_def list_sort_def get_sort_value_def
        py_getattr_def object_members_def query_newest_first_def
        cat_b1_def cat_a_def cat_b2_def)

section \<open>Properties of the validator\<close>

lemma py_bind_Inr [simp]: "py_bind (Inr x) f = f x"
  by (simp add: py_bind_def)

lemma py_bind_Inl [simp]: "py_bind (Inl e) f = Inl e"
  by (simp add: py_bind_def)

lemma py_bind_eq_Inr: "(py_bind m f = Inr y) = (\<exists>x. m = Inr x \<and> f x = Inr y)"
  by (cases m) simp_all

text \<open>What one step of the validator does to the two lists.\<close>

lemma add_error_fst: "set (fst acc) \<subseteq> set (fst (add_error c m acc))"
  by (auto simp: add_error_def)

lemma add_error_snd [simp]: "snd (add_error c m acc) = snd acc"
  by (simp add: add_error_def)

lemma add_warning_fst [simp]: "fst (add_warning c m acc) = fst acc"
  by (simp add: add_warning_def)

lemma add_warning_snd: "set (snd acc) \<subseteq> set (snd (add_warning c m acc))"
  by (auto simp: add_warning_def)

lemma validate_field_dict:
  "validate_field idx j (JDict f) acc =
     Inr (add_error (map_of f ''arrayConfig'' \<noteq> None \<and> map_of f ''arrayConfig'' \<noteq> Some (JStr ''CONTAINS''))
            (msg_bad_array_config idx j)
         (add_error (map_of f ''order'' \<noteq> None \<and> map_of f ''order'' \<noteq> Some (JStr ''ASCENDING'')
                       \<and> map_of f ''order'' \<noteq> Some (JStr ''DESCENDING''))
            (msg_bad_order idx j)
         (add_warning (map_of f ''order'' \<noteq> None \<and> map_of f ''arrayConfig'' \<noteq> None) (msg_both idx j)
         (add_error (map_of f ''order'' = None \<and> map_of f ''arrayConfig'' = None) (msg_neither idx j)
         (add_error (map_of f ''fieldPath'' = None) (msg_missing_path idx j) acc)))))"
  by (cases "map_of f ''order''"; cases "map_of f ''arrayConfig''")
     (auto simp: validate_field_def)

lemma ending_append [simp]: "length t \<ge> 2 \<Longrightarrow> ending (s @ t) = ending t"
  by (simp add: ending_def)

lemma ending_msgs [simp]:
  "ending (msg_both i j) = ''ed''"
  "ending (msg_missing_collection i) = ''ld''"
  "ending (msg_missing_fields i) = ''ay''"
  "ending (msg_missing_path i j) = ''h'' @ [CHR 0x27]"
  "ending (msg_neither i j) = ''g'' @ [CHR 0x27]"
  "ending (msg_bad_order i j) = ''G'' @ [CHR 0x27]"
  "ending (msg_bad_array_config i j) = ''S'' @ [CHR 0x27]"
  by (simp_all add: msg_both_def msg_missing_collection_def msg_missing_fields_def
        msg_missing_path_def msg_neither_def msg_bad_order_def msg_bad_array_config_def
        ending_def)

lemma grows_refl [simp]: "grows acc acc"
  by (simp add: grows_def)

lemma grows_trans: "grows a b \<Longrightarrow> grows b c \<Longrightarrow> grows a c"
  unfolding grows_def by blast

lemma grows_add_error: "ending m \<noteq> ''ed'' \<Longrightarrow> grows acc (add_error c m acc)"
  by (auto simp: grows_def add_error_def)

lemma grows_add_warning: "grows acc (add_warning c m acc)"
  by (auto simp: grows_def add_warning_def)

lemma validate_field_shape:
  assumes "validate_field idx j fc acc = Inr acc'"
  shows "\<exists>b1 b2 b3 b4 b5.
           acc' = add_error b5 (msg_bad_array_config idx j)
                    (add_error b4 (msg_bad_order idx j)
                    (add_warning b3 (msg_both idx j)
                    (add_error b2 (msg_neither idx j)
                    (add_error b1 (msg_missing_path idx j) acc))))"
  using assms unfolding validate_field_def py_bind_eq_Inr by blast

lemma validate_field_grows:
  assumes "validate_field idx j fc acc = Inr acc'"
  shows "grows acc acc'"
proof -
  obtain b1 b2 b3 b4 b5 where
    "acc' = add_error b5 (msg_bad_array_config idx j)
              (add_error b4 (msg_bad_order idx j)
              (add_warning b3 (msg_both idx j)
              (add_error b2 (msg_neither idx j)
              (add_error b1 (msg_missing_path idx j) acc))))"
    using validate_field_shape [OF assms] by blast
  then show ?thesis
    by (auto intro!: grows_trans [OF _ grows_add_error] grows_trans [OF _ grows_add_warning]
             grows_add_error)
qed

lemma validate_fields_grows:
  "validate_fields idx k fs acc = Inr acc' \<Longrightarrow> grows acc acc'"
proof (induction fs arbitrary: k acc)
  case Nil
  then show ?case by simp
next
  case (Cons fc fs)
  then obtain a1 where a1: "validate_field idx k fc acc = Inr a1"
    and r: "validate_fields idx (Suc k) fs a1 = Inr acc'"
    by (auto simp: py_bind_eq_Inr)
  show ?case
    using validate_field_grows [OF a1] Cons.IH [OF r] by (rule grows_trans)
qed

lemma validate_index_cases:
  assumes "validate_index idx ic acc = Inr acc'"
  shows "\<exists>hc nf. acc' = add_error nf (msg_missing_fields idx)
                          (add_error (\<not> hc) (msg_missing_collection idx) acc)
                 \<or> (\<exists>fs. validate_fields idx 0 fs
                            (add_error nf (msg_missing_fields idx)
                              (add_error (\<not> hc) (msg_missing_collection idx) acc)) = Inr acc')"
proof -
  from assms obtain hc hf nf where
    r: "(let acc1 = add_error nf (msg_missing_fields idx)
                      (add_error (\<not> hc) (msg_missing_collection idx) acc)
         in if hf
            then py_bind (py_getitem ic ''fields'') (\<lambda>fields.
                 py_bind (py_iter fields) (\<lambda>field_configs.
                 validate_fields idx 0 field_configs acc1))
            else Inr acc1) = Inr acc'"
    unfolding validate_index_def py_bind_eq_Inr by blast
  show ?thesis
  proof (cases hf)
    case True
    then obtain fs where
      "validate_fields idx 0 fs
         (add_error nf (msg_missing_fields idx)
           (add_error (\<not> hc) (msg_missing_collection idx) acc)) = Inr acc'"
      using r by (auto simp: py_bind_eq_Inr Let_def)
    then show ?thesis by blast
  next
    case False
    then show ?thesis using r by (auto simp: Let_def)
  qed
qed

lemma validate_index_grows:
  assumes "validate_index idx ic acc = Inr acc'"
  shows "grows acc acc'"
proof -
  obtain hc nf where
    d: "acc' = add_error nf (msg_missing_fields idx)
                 (add_error (\<not> hc) (msg_missing_collection idx) acc)
        \<or> (\<exists>fs. validate_fields idx 0 fs
                   (add_error nf (msg_missing_fields idx)
                     (add_error (\<not> hc) (msg_missing_collection idx) acc)) = Inr acc')"
    using validate_index_cases [OF assms] by blast
  have g: "grows acc (add_error nf (msg_missing_fields idx)
                       (add_error (\<not> hc) (msg_missing_collection idx) acc))"
    by (auto intro!: grows_trans [OF _ grows_add_error] grows_add_error)
  from d show ?thesis
  proof
    assume "acc' = add_error nf (msg_missing_fields idx)
                     (add_error (\<not> hc) (msg_missing_collection idx) acc)"
    then show ?thesis using g by simp
  next
    assume "\<exists>fs. validate_fields idx 0 fs
                   (add_error nf (msg_missing_fields idx)
                     (add_error (\<not> hc) (msg_missing_collection idx) acc)) = Inr acc'"
    then show ?thesis using g validate_fields_grows grows_trans by blast
  qed
qed

lemma validate_loop_grows:
  "validate_loop k idxs acc = Inr acc' \<Longrightarrow> grows acc acc'"
proof (induction idxs arbitrary: k acc)
  case Nil
  then show ?case by simp
next
  case (Cons ic idxs)
  then obtain a1 where a1: "validate_index k ic acc = Inr a1"
    and r: "validate_loop (Suc k) idxs a1 = Inr acc'"
    by (auto simp: py_bind_eq_Inr)
  show ?case
    using validate_index_grows [OF a1] Cons.IH [OF r] by (rule grows_trans)
qed









text \<open>The report is built from the two lists the loop returns.\<close>

lemma validate_indexes_report:
  assumes "validate_indexes cfg = Inr rep"
  shows "\<exists>idxs acc. py_bind (py_get cfg ''indexes'' (JList [])) py_iter = Inr idxs
           \<and> validate_loop 0 idxs ([], []) = Inr acc
           \<and> v_errors rep = fst acc \<and> v_warnings rep = snd acc
           \<and> (v_status rep = ''valid'') = (fst acc = [])
           \<and> (v_http_status rep = 200) = (fst acc = [])"
proof -
  from assms obtain indexes idxs acc where
    a: "py_get cfg ''indexes'' (JList []) = Inr indexes"
    and b: "py_iter indexes = Inr idxs"
    and c: "validate_loop 0 idxs ([], []) = Inr acc"
    and r: "Inr \<lparr> v_status = (if length (fst acc) = 0 then ''valid'' else ''invalid''),
                   v_total_indexes = length idxs,
                   v_errors = fst acc,
                   v_warnings = snd acc,
                   v_message = (if length (fst acc) = 0 then ''Configuration is valid''
                                else ''Found '' @ show_nat (length (fst acc)) @ '' error(s)''),
                   v_http_status = (if length (fst acc) = 0 then 200 else 400) \<rparr>
            = (Inr rep :: py_exception + validation_response)"
    unfolding validate_indexes_def py_bind_eq_Inr Let_def by blast
  have i: "py_bind (py_get cfg ''indexes'' (JList [])) py_iter = Inr idxs"
    using a b by simp
  have e: "v_errors rep = fst acc" and w: "v_warnings rep = snd acc"
    and s: "v_status rep = (if length (fst acc) = 0 then ''valid'' else ''invalid'')"
    and h: "v_http_status rep = (if length (fst acc) = 0 then 200 else 400)"
    using r by auto
  have "(v_status rep = ''valid'') = (fst acc = [])"
    unfolding s by simp
  moreover have "(v_http_status rep = 200) = (fst acc = [])"
    unfolding h by simp
  ultimately show ?thesis using i c e w by blast
qed





text \<open>A definition without the key \<open>collectionGroup\<close> is reported as an error.\<close>

lemma validate_index_missing_collection:
  assumes "map_of d ''collectionGroup'' = None"
    and "validate_index idx (JDict d) acc = Inr acc'"
  shows "msg_missing_collection idx \<in> set (fst acc')"
proof -
  define a0 where "a0 = add_error True (msg_missing_collection idx) acc"
  have m: "msg_missing_collection idx \<in> set (fst a0)"
    by (simp add: a0_def add_error_def)
  obtain nf where
    d: "acc' = add_error nf (msg_missing_fields idx) a0
        \<or> (\<exists>fs. validate_fields idx 0 fs (add_error nf (msg_missing_fields idx) a0) = Inr acc')"
    using assms unfolding a0_def
    by (auto simp: validate_index_def Let_def py_bind_eq_Inr split: if_splits)
  have "grows a0 (add_error nf (msg_missing_fields idx) a0)"
    by (simp add: grows_add_error)
  then have "grows a0 acc'"
    using d validate_fields_grows grows_trans by blast
  then show ?thesis using m by (auto simp: grows_def)
qed

lemma validate_loop_missing_collection:
  assumes "i < length idxs" and "idxs ! i = JDict d"
    and "map_of d ''collectionGroup'' = None"
    and "validate_loop k idxs acc = Inr acc'"
  shows "msg_missing_collection (k + i) \<in> set (fst acc')"
  using assms(1,2,4)
proof (induction idxs arbitrary: i k acc)
  case Nil
  then show ?case by simp
next
  case (Cons ic idxs)
  obtain a1 where a1: "validate_index k ic acc = Inr a1"
    and r: "validate_loop (Suc k) idxs a1 = Inr acc'"
    using Cons.prems(3) by (auto simp: py_bind_eq_Inr)
  show ?case
  proof (cases i)
    case 0
    then have "msg_missing_collection k \<in> set (fst a1)"
      using validate_index_missing_collection [OF assms(3), of k acc a1] a1 Cons.prems(2)
      by simp
    moreover have "grows a1 acc'" using r by (rule validate_loop_grows)
    ultimately show ?thesis using 0 by (auto simp: grows_def)
  next
    case (Suc i')
    then have "msg_missing_collection (Suc k + i') \<in> set (fst acc')"
      using Cons.prems(1,2) r by (intro Cons.IH) simp_all
    then show ?thesis using Suc by simp
  qed
qed

lemma validate_missing_collection:
  assumes "index_at cfg i = Some (JDict d)" and "map_of d ''collectionGroup'' = None"
    and "validate_indexes cfg = Inr rep"
  shows "msg_missing_collection i \<in> set (v_errors rep)
         \<and> v_status rep \<noteq> ''valid'' \<and> v_http_status rep \<noteq> 200"
proof -
  obtain idxs acc where
    it: "py_bind (py_get cfg ''indexes'' (JList [])) py_iter = Inr idxs"
    and lp: "validate_loop 0 idxs ([], []) = Inr acc"
    and e: "v_errors rep = fst acc"
    and s: "(v_status rep = ''valid'') = (fst acc = [])"
    and h: "(v_http_status rep = 200) = (fst acc = [])"
    using validate_indexes_report [OF assms(3)] by blast
  obtain c idxs' where c: "cfg = JDict c" "map_of c ''indexes'' = Some (JList idxs')"
    and i: "i < length idxs'" "idxs' ! i = JDict d"
    using assms(1) by (auto simp: index_at_def split: json.splits option.splits if_splits)
  have "idxs' = idxs" using it c by simp
  then have "msg_missing_collection (0 + i) \<in> set (fst acc)"
    using validate_loop_missing_collection [of i idxs d 0 "([], [])" acc] i assms(2) lp by simp
  then have m: "msg_missing_collection i \<in> set (fst acc)" by simp
  then have "fst acc \<noteq> []" by auto
  then show ?thesis using m e s h by simp
qed

text \<open>
  C9 (the code departs from the claim). A definition whose \<open>collectionGroup\<close> is the
  empty string passes the validator, which tests only that the key is there: the report
  is valid with no error. \<open>create_indexes\<close> treats the same definition as one without a
  collection and skips it.
\<close>

theorem validate_accepts_empty_collection:
  "validate_indexes cfg_empty_collection =
     Inr \<lparr> v_status = ''valid'', v_total_indexes = 1, v_errors = [], v_warnings = [],
           v_message = ''Configuration is valid'', v_http_status = 200 \<rparr>
   \<and> create_indexes env parent cfg_empty_collection st =
     Inr \<lparr> c_status = ''Completed with Errors/Skips'',
           c_results = [\<lparr> o_index = JStr ''Unknown'', o_status = Skipped,
                          o_detail = JStr ''Missing 'collectionGroup' in definition.'' \<rparr>],
           c_http_status = 207 \<rparr>"
  by (simp add: validate_indexes_def validate_index_def validate_field_dict
        create_indexes_def create_one_def record_outcome_def
        cfg_empty_collection_def mk_index_def field_asc_def add_error_def add_warning_def)

section \<open>Properties of the index creation\<close>

lemma record_outcome_results [simp]: "fst (record_outcome out f st acc) = fst acc @ [out]"
  by (simp add: record_outcome_def)

lemma record_outcome_flag [simp]:
  "fst (snd (record_outcome out f st acc)) = (f \<or> fst (snd acc))"
  by (simp add: record_outcome_def)

text \<open>
  The handler of \<open>HttpError\<close>, when it returns, has decoded the payload and records
  Exists for a conflict or an "already exists" payload and Error otherwise, and sets
  \<open>has_errors\<close> for Error only.
\<close>

lemma handle_http_error_outcome:
  assumes "handle_http_error env name e st acc = Inr acc'"
  shows "\<exists>out error_content. utf8_decode env (content e) = Some error_content
           \<and> acc' = record_outcome out (is_failure out) st acc
           \<and> o_index out = JStr name
           \<and> o_status out = (if already_exists env e error_content then Exists else Error)"
proof -
  obtain error_content where d: "utf8_decode env (content e) = Some error_content"
    using assms by (cases "utf8_decode env (content e)") (simp_all add: handle_http_error_def)
  show ?thesis
  proof (cases "already_exists env e error_content")
    case True
    then have "acc' = record_outcome
                        \<lparr> o_index = JStr name, o_status = Exists,
                          o_detail = JStr ''Index already exists.'' \<rparr> False st acc"
      using assms d by (simp add: handle_http_error_def already_exists_def)
    then show ?thesis
      using True d
      by (intro exI [of _ "\<lparr> o_index = JStr name, o_status = Exists,
                              o_detail = JStr ''Index already exists.'' \<rparr>"]
                exI [of _ error_content])
         (simp add: is_failure_def)
  next
    case False
    then obtain detail where
      "acc' = record_outcome \<lparr> o_index = JStr name, o_status = Error, o_detail = detail \<rparr>
                True st acc"
      using assms d by (auto simp: handle_http_error_def already_exists_def py_bind_eq_Inr)
    then show ?thesis
      using False d
      by (intro exI [of _ "\<lparr> o_index = JStr name, o_status = Error, o_detail = detail \<rparr>"]
                exI [of _ error_content])
         (simp add: is_failure_def)
  qed
qed

text \<open>
  An exception escapes from the building of the detail only as the AttributeError of
  \<open>.get\<close> on a payload, or on an \<open>error\<close> member, that is not a dict.
\<close>

lemma error_detail_raises:
  assumes "error_detail env error_content e = Inl x"
  shows "x = AttributeError
         \<and> (\<exists>payload. json_loads env error_content = Some payload
               \<and> (\<not> is_dict payload
                    \<or> (\<exists>d v. payload = JDict d \<and> map_of d ''error'' = Some v \<and> \<not> is_dict v)))"
proof (cases "json_loads env error_content")
  case None
  then show ?thesis using assms by (simp add: error_detail_def)
next
  case (Some payload)
  show ?thesis
  proof (cases payload)
    case (JDict d)
    show ?thesis
    proof (cases "map_of d ''error''")
      case None
      then show ?thesis using assms Some JDict by (simp add: error_detail_def)
    next
      case (Some v)
      have "is_dict v \<Longrightarrow> False"
        using assms \<open>json_loads env error_content = Some payload\<close> JDict Some
        by (cases v) (auto simp: error_detail_def split: if_splits option.splits)
      moreover have "\<not> is_dict v \<Longrightarrow> x = AttributeError"
        using assms \<open>json_loads env error_content = Some payload\<close> JDict Some
        by (cases v) (simp_all add: error_detail_def)
      ultimately show ?thesis
        using \<open>json_loads env error_content = Some payload\<close> JDict Some by auto
    qed
  qed (use assms Some in \<open>simp_all add: error_detail_def\<close>)
qed

text \<open>
  The handler lets an exception escape in two cases: the payload is not valid UTF-8
  (UnicodeDecodeError, before the test for a conflict), or the error is not a conflict
  and the building of the detail raises.
\<close>

lemma handle_http_error_raises:
  assumes "handle_http_error env name e st acc = Inl x"
  shows "(utf8_decode env (content e) = None \<and> x = UnicodeDecodeError)
         \<or> (\<exists>error_content. utf8_decode env (content e) = Some error_content
               \<and> \<not> already_exists env e error_content
               \<and> error_detail env error_content e = Inl x)"
proof (cases "utf8_decode env (content e)")
  case None
  then show ?thesis using assms by (simp add: handle_http_error_def)
next
  case (Some error_content)
  then show ?thesis
    using assms
    by (cases "error_detail env error_content e")
       (auto simp: handle_http_error_def already_exists_def split: if_splits)
qed

lemma handle_http_error_undecodable:
  "utf8_decode env (content e) = None
   \<Longrightarrow> handle_http_error env name e st acc = Inl UnicodeDecodeError"
  by (simp add: handle_http_error_def)

text \<open>
  One pass of the loop body that returns appends exactly one outcome and sets
  \<open>has_errors\<close> exactly when that outcome is Skipped or Error.
\<close>

lemma create_one_outcome:
  assumes "create_one env parent index_def acc = Inr acc'"
  shows "\<exists>out st'. acc' = record_outcome out (is_failure out) st' acc"
proof -
  let ?st = "snd (snd acc)"
  from assms obtain collection_id where
    r1: "(if \<not> json_truthy collection_id
          then Inr (record_outcome
                  \<lparr> o_index = JStr ''Unknown'', o_status = Skipped,
                    o_detail = JStr ''Missing 'collectionGroup' in definition.'' \<rparr> True ?st acc)
          else
        py_bind (py_get index_def ''fields'' (JList [])) (\<lambda>fields.
        py_bind (py_iter fields) (\<lambda>field_list.
        py_bind (map_fields field_list) (\<lambda>api_fields.
        if api_fields = []
        then Inr (record_outcome
                    \<lparr> o_index = collection_id, o_status = Skipped,
                      o_detail = JStr ''No valid 'fields' defined for index.'' \<rparr> True ?st acc)
        else
          py_bind (py_get index_def ''queryScope'' (JStr ''COLLECTION'')) (\<lambda>query_scope.
          let index_body = JDict [(''queryScope'', query_scope),
                                  (''fields'', JList (map JDict api_fields))]
          in
          py_bind (field_labels api_fields) (\<lambda>labels.
          let index_name_str =
                py_format env collection_id @ '' ('' @ join_comma labels @ '')''
          in
          case create_index env (parent @ ''/'' @ py_format env collection_id) index_body ?st of
            (Operation operation, st') \<Rightarrow>
              Inr (record_outcome
                     \<lparr> o_index = JStr index_name_str, o_status = Initiated,
                       o_detail = JStr (''Operation: '' @ py_format env
                                   (case map_of operation ''name'' of
                                      None \<Rightarrow> JNull | Some n \<Rightarrow> n)) \<rparr>
                     False st' acc)
          | (RaisesHttpError e, st') \<Rightarrow> handle_http_error env index_name_str e st' acc
          | (RaisesOther msg, st') \<Rightarrow>
              Inr (record_outcome
                     \<lparr> o_index = JStr index_name_str, o_status = Error,
                       o_detail = JStr (''Unexpected error: '' @ msg) \<rparr> True st' acc))))))) = Inr acc'"
    unfolding create_one_def Let_def py_bind_eq_Inr by blast
  show ?thesis
  proof (cases "json_truthy collection_id")
    case False
    then have "acc' = record_outcome
                  \<lparr> o_index = JStr ''Unknown'', o_status = Skipped,
                    o_detail = JStr ''Missing 'collectionGroup' in definition.'' \<rparr> True ?st acc"
      using r1 by simp
    then show ?thesis
      by (intro exI [of _ "\<lparr> o_index = JStr ''Unknown'', o_status = Skipped,
                    o_detail = JStr ''Missing 'collectionGroup' in definition.'' \<rparr>"]
                exI [of _ ?st]) (simp add: is_failure_def)
  next
    case True
    then obtain api_fields where
      r2: "(if api_fields = []
        then Inr (record_outcome
                    \<lparr> o_index = collection_id, o_status = Skipped,
                      o_detail = JStr ''No valid 'fields' defined for index.'' \<rparr> True ?st acc)
        else
          py_bind (py_get index_def ''queryScope'' (JStr ''COLLECTION'')) (\<lambda>query_scope.
          let index_body = JDict [(''queryScope'', query_scope),
                                  (''fields'', JList (map JDict api_fields))]
          in
          py_bind (field_labels api_fields) (\<lambda>labels.
          let index_name_str =
                py_format env collection_id @ '' ('' @ join_comma labels @ '')''
          in
          case create_index env (parent @ ''/'' @ py_format env collection_id) index_body ?st of
            (Operation operation, st') \<Rightarrow>
              Inr (record_outcome
                     \<lparr> o_index = JStr index_name_str, o_status = Initiated,
                       o_detail = JStr (''Operation: '' @ py_format env
                                   (case map_of operation ''name'' of
                                      None \<Rightarrow> JNull | Some n \<Rightarrow> n)) \<rparr>
                     False st' acc)
          | (RaisesHttpError e, st') \<Rightarrow> handle_http_error env index_name_str e st' acc
          | (RaisesOther msg, st') \<Rightarrow>
              Inr (record_outcome
                     \<lparr> o_index = JStr index_name_str, o_status = Error,
                       o_detail = JStr (''Unexpected error: '' @ msg) \<rparr> True st' acc)))) = Inr acc'"
      using r1 by (simp add: py_bind_eq_Inr) blast
    show ?thesis
    proof (cases "api_fields = []")
      case True
      then have "acc' = record_outcome
                    \<lparr> o_index = collection_id, o_status = Skipped,
                      o_detail = JStr ''No valid 'fields' defined for index.'' \<rparr> True ?st acc"
        using r2 by simp
      then show ?thesis
        by (intro exI [of _ "\<lparr> o_index = collection_id, o_status = Skipped,
                      o_detail = JStr ''No valid 'fields' defined for index.'' \<rparr>"]
                  exI [of _ ?st]) (simp add: is_failure_def)
    next
      case False
      then obtain body name where
        r3: "(case create_index env (parent @ ''/'' @ py_format env collection_id) body ?st of
            (Operation operation, st') \<Rightarrow>
              Inr (record_outcome
                     \<lparr> o_index = JStr name, o_status = Initiated,
                       o_detail = JStr (''Operation: '' @ py_format env
                                   (case map_of operation ''name'' of
                                      None \<Rightarrow> JNull | Some n \<Rightarrow> n)) \<rparr>
                     False st' acc)
          | (RaisesHttpError e, st') \<Rightarrow> handle_http_error env name e st' acc
          | (RaisesOther msg, st') \<Rightarrow>
              Inr (record_outcome
                     \<lparr> o_index = JStr name, o_status = Error,
                       o_detail = JStr (''Unexpected error: '' @ msg) \<rparr> True st' acc)) = Inr acc'"
        using r2 by (simp add: py_bind_eq_Inr Let_def) blast
      obtain res st' where c: "create_index env (parent @ ''/'' @ py_format env collection_id) body ?st = (res, st')"
        by (cases "create_index env (parent @ ''/'' @ py_format env collection_id) body ?st")
      show ?thesis
      proof (cases res)
        case (Operation operation)
        then have "acc' = record_outcome
                     \<lparr> o_index = JStr name, o_status = Initiated,
                       o_detail = JStr (''Operation: '' @ py_format env
                                   (case map_of operation ''name'' of
                                      None \<Rightarrow> JNull | Some n \<Rightarrow> n)) \<rparr>
                     False st' acc"
          using r3 c by simp
        then show ?thesis
          by (intro exI [of _ "\<lparr> o_index = JStr name, o_status = Initiated,
                       o_detail = JStr (''Operation: '' @ py_format env
                                   (case map_of operation ''name'' of
                                      None \<Rightarrow> JNull | Some n \<Rightarrow> n)) \<rparr>"]
                    exI [of _ st']) (simp add: is_failure_def)
      next
        case (RaisesHttpError e)
        then have "handle_http_error env name e st' acc = Inr acc'"
          using r3 c by simp
        then obtain out where "acc' = record_outcome out (is_failure out) st' acc"
          using handle_http_error_outcome [of env name e st' acc acc'] by blast
        then show ?thesis by blast
      next
        case (RaisesOther msg)
        then have "acc' = record_outcome
                     \<lparr> o_index = JStr name, o_status = Error,
                       o_detail = JStr (''Unexpected error: '' @ msg) \<rparr> True st' acc"
          using r3 c by simp
        then show ?thesis
          by (intro exI [of _ "\<lparr> o_index = JStr name, o_status = Error,
                       o_detail = JStr (''Unexpected error: '' @ msg) \<rparr>"]
                    exI [of _ st']) (simp add: is_failure_def)
      qed
    qed
  qed
qed

text \<open>
  A loop that returns has appended one outcome per definition to the earlier results,
  and \<open>has_errors\<close> stays the flag of a Skipped or Error outcome among the results.
\<close>

lemma create_loop_results:
  assumes "create_loop env parent defs acc = Inr acc'"
  shows "length (fst acc') = length (fst acc) + length defs
         \<and> take (length (fst acc)) (fst acc') = fst acc
         \<and> (fst (snd acc) = list_ex is_failure (fst acc)
              \<longrightarrow> fst (snd acc') = list_ex is_failure (fst acc'))"
  using assms
proof (induction defs arbitrary: acc)
  case Nil
  then show ?case by simp
next
  case (Cons d defs)
  obtain a1 where a1: "create_one env parent d acc = Inr a1"
    and r: "create_loop env parent defs a1 = Inr acc'"
    using Cons.prems by (auto simp: py_bind_eq_Inr)
  obtain out st' where o: "a1 = record_outcome out (is_failure out) st' acc"
    using create_one_outcome [OF a1] by blast
  have l: "fst a1 = fst acc @ [out]" and f: "fst (snd a1) = (is_failure out \<or> fst (snd acc))"
    using o by simp_all
  have ih: "length (fst acc') = length (fst a1) + length defs"
    "take (length (fst a1)) (fst acc') = fst a1"
    "fst (snd a1) = list_ex is_failure (fst a1) \<longrightarrow> fst (snd acc') = list_ex is_failure (fst acc')"
    using Cons.IH [OF r] by simp_all
  have "take (length (fst acc)) (fst acc') = take (length (fst acc)) (take (length (fst a1)) (fst acc'))"
    using l by (simp add: min_def)
  also have "\<dots> = fst acc" using ih(2) l by simp
  finally have t: "take (length (fst acc)) (fst acc') = fst acc" .
  have "fst (snd acc) = list_ex is_failure (fst acc) \<longrightarrow> fst (snd a1) = list_ex is_failure (fst a1)"
    using l f by auto
  then show ?case using ih l t by simp
qed

lemma create_indexes_report:
  assumes "create_indexes env parent cfg st = Inr resp"
  shows "(c_http_status resp = 207) = list_ex is_failure (c_results resp)
         \<and> (c_http_status resp = 200) = (\<not> list_ex is_failure (c_results resp))
         \<and> (c_status resp = ''Completed with Errors/Skips'') = list_ex is_failure (c_results resp)"
proof -
  from assms obtain indexes where
    r: "(if \<not> json_truthy indexes
         then Inr \<lparr> c_status = ''Info'', c_results = [], c_http_status = 200 \<rparr>
         else py_bind (py_iter indexes) (\<lambda>index_defs.
              py_bind (create_loop env parent index_defs ([], False, st)) (\<lambda>acc.
              Inr \<lparr> c_status = (if \<not> fst (snd acc) then ''Completed''
                                  else ''Completed with Errors/Skips''),
                    c_results = fst acc,
                    c_http_status = (if fst (snd acc) then 207 else 200) \<rparr>))) = Inr resp"
    unfolding create_indexes_def py_bind_eq_Inr Let_def by blast
  show ?thesis
  proof (cases "json_truthy indexes")
    case False
    then have "resp = \<lparr> c_status = ''Info'', c_results = [], c_http_status = 200 \<rparr>"
      using r by simp
    then show ?thesis by simp
  next
    case True
    then obtain defs acc where lp: "create_loop env parent defs ([], False, st) = Inr acc"
      and resp: "resp = \<lparr> c_status = (if \<not> fst (snd acc) then ''Completed''
                                        else ''Completed with Errors/Skips''),
                          c_results = fst acc,
                          c_http_status = (if fst (snd acc) then 207 else 200) \<rparr>"
      using r by (auto simp: py_bind_eq_Inr)
    have "fst (snd acc) = list_ex is_failure (fst acc)"
      using create_loop_results [OF lp] by simp
    then show ?thesis by (simp add: resp)
  qed
qed

text \<open>
  A batch against a remote API whose answers are: accepted, conflict, status 500 with a
  payload that is not JSON.
\<close>

lemma create_indexes_mixed:
  "create_indexes env_mixed parent
     (JDict [(''indexes'', JList [mk_index ''users'' [field_asc ''age''],
                                   mk_index ''orders'' [field_asc ''age''],
                                   mk_index ''items'' [field_asc ''name'']])]) 0 =
   Inr \<lparr> c_status = ''Completed with Errors/Skips'',
         c_results =
           [\<lparr> o_index = JStr ''users (age ASCENDING)'', o_status = Initiated,
               o_detail = JStr ''Operation: operations/1'' \<rparr>,
            \<lparr> o_index = JStr ''orders (age ASCENDING)'', o_status = Exists,
               o_detail = JStr ''Index already exists.'' \<rparr>,
            \<lparr> o_index = JStr ''items (name ASCENDING)'', o_status = Error,
               o_detail = JStr ''<HttpError 500>'' \<rparr>],
         c_http_status = 207 \<rparr>"
  by (simp add: create_indexes_def create_one_def map_field_def copy_key_def field_label_def
        handle_http_error_def error_detail_def record_outcome_def py_format_def
        env_mixed_def sample_loads_def ascii_decode_def mk_index_def field_asc_def
        lower_def lower_char_def)

text \<open>
  C1 (the code departs from the claim). The label \<open>index_name_str\<close> is built before the
  \<open>try\<close>, so for a field that has \<open>order\<close> and no \<open>fieldPath\<close> the KeyError of
  \<open>f['fieldPath']\<close> leaves \<open>create_indexes\<close>: the batch returns no outcome, neither
  for the definition before nor for the one after, which alone are both accepted.
\<close>

theorem create_indexes_label_raises:
  "create_indexes env_accept parent cfg_no_path 0 = Inl KeyError
   \<and> (\<exists>resp. create_indexes env_accept parent cfg_two 0 = Inr resp
          \<and> map o_status (c_results resp) = [Initiated, Initiated]
          \<and> c_http_status resp = 200)"
  by (simp add: create_indexes_def create_one_def map_field_def copy_key_def field_label_def
        record_outcome_def py_format_def env_accept_def cfg_no_path_def cfg_two_def
        mk_index_def field_asc_def)

text \<open>
  C3 (the code departs from the claim). A remote error with status 500 whose payload is
  JSON but not an object (here the empty list) is neither recorded as Exists nor as
  Error: \<open>.get\<close> raises AttributeError inside the \<open>except HttpError\<close> clause, which
  catches JSONDecodeError, KeyError and TypeError only, and the exception leaves
  \<open>create_indexes\<close>.
\<close>

theorem create_indexes_error_payload_raises:
  "utf8_decode env_fail_list ''[]'' = Some ''[]''
   \<and> \<not> already_exists env_fail_list
         \<lparr> resp_status = 500, content = ''[]'', err_str = ''<HttpError 500>'' \<rparr> ''[]''
   \<and> handle_http_error env_fail_list name
         \<lparr> resp_status = 500, content = ''[]'', err_str = ''<HttpError 500>'' \<rparr> st acc
       = Inl AttributeError
   \<and> create_indexes env_fail_list parent cfg_two 0 = Inl AttributeError"
  by (simp add: create_indexes_def create_one_def map_field_def copy_key_def field_label_def
        handle_http_error_def error_detail_def already_exists_def record_outcome_def
        py_format_def env_fail_list_def sample_loads_def ascii_decode_def cfg_two_def
        mk_index_def field_asc_def lower_def lower_char_def)

end
